theory Spec2Isabelle
  imports Complex_Main "HOL-Library.Word"
begin

unbundle bit_operations_syntax

section \<open>JavaScript values used by the generator\<close>

text \<open>
  A JavaScript number is modelled as a real, with the three non-finite doubles as
  constructors of their own. The generator's arithmetic is carried out on reals:
  the quotient \<open>k / 2^32\<close> of a 32-bit integer is exact in a double, and so are the
  patch and tree coordinates computed from it; the trigonometric path coordinates
  and the tree scale are the real-valued idealisation of the rounded doubles.
  The 32-bit integer operations (unsigned shift, exclusive or, or, \<open>Math.imul\<close>) are
  modelled on \<open>32 word\<close>: a JavaScript int32 and uint32 with the same bit pattern are
  the same word.
\<close>

datatype jsnumber = Finite real | NaN | PosInfinity | NegInfinity

type_synonym uint32 = "32 word"

text \<open>A JavaScript string is a sequence of UTF-16 code units (\<open>charCodeAt\<close>).\<close>

type_synonym jsstring = "16 word list"

definition ascii :: "string \<Rightarrow> jsstring" where
  "ascii s = map (\<lambda>c. of_nat (of_char c)) s"

text \<open>
  The values a caller passes as \<open>seed\<close>: nothing (\<open>undefined\<close>), \<open>null\<close>, a
  number or a string.
\<close>

datatype seedArg = JUndefined | JNull | JNumber jsnumber | JString jsstring

text \<open>\<open>ToUint32\<close> of ECMAScript, the conversion behind the unsigned shift of the seed by 0.\<close>

definition toUint32 :: "jsnumber \<Rightarrow> uint32" where
  "toUint32 n = (case n of
      Finite r \<Rightarrow> word_of_int (if r < 0 then - \<lfloor>- r\<rfloor> else \<lfloor>r\<rfloor>)
    | _ \<Rightarrow> 0)"

text \<open>\<open>Math.imul\<close>: the low 32 bits of the product.\<close>

definition imul :: "uint32 \<Rightarrow> uint32 \<Rightarrow> uint32" where
  "imul a b = a * b"

section \<open>rng.js\<close>

text \<open>
  \<open>mulberry32(seed)\<close> returns a closure over the variable \<open>t\<close>, initialised to
  the seed converted by \<open>ToUint32\<close>. The model keeps \<open>t\<close> as explicit state: \<open>mulberry32\<close> gives the
  initial value and \<open>rand\<close> is one call of the closure, returning the float and the
  new \<open>t\<close>. The statement \<open>t += 0x6D2B79F5\<close> is an addition of JavaScript numbers:
  it is not reduced modulo \<open>2^32\<close>, so \<open>t\<close> is a natural number here (the addition is
  exact in a double while \<open>t < 2^53\<close>, that is for some 4.9 million draws). Only the
  bitwise operators read \<open>t\<close>, through \<open>ToInt32\<close>/\<open>ToUint32\<close>.
\<close>

definition mulberry32 :: "jsnumber \<Rightarrow> nat" where
  "mulberry32 seed = unat (toUint32 seed)"

definition rand :: "nat \<Rightarrow> real \<times> nat" where
  "rand t0 =
    (let t = t0 + 0x6D2B79F5;
         w = (word_of_nat t :: uint32);
         x = imul (w XOR drop_bit 15 w) (1 OR w);
         x = x XOR (x + imul (x XOR drop_bit 7 x) (61 OR x))
     in (real (unat (x XOR drop_bit 14 x)) / 4294967296, t))"

text \<open>FNV-1a over the code units of the string; \<open>hashLoop\<close> is the \<open>for\<close> loop.\<close>

fun hashLoop :: "uint32 \<Rightarrow> jsstring \<Rightarrow> uint32" where
  "hashLoop h [] = h"
| "hashLoop h (c # cs) = hashLoop (imul (h XOR ucast c) 16777619) cs"

definition hashStringToUint32 :: "jsstring \<Rightarrow> uint32" where
  "hashStringToUint32 str = hashLoop 2166136261 str"

text \<open>
  The object returned by \<open>createRng\<close>: the field \<open>seed\<close> and the state of the
  closure \<open>rand\<close>, which the methods \<open>float\<close>, \<open>int\<close> and \<open>pick\<close> share.
\<close>

record rng =
  rng_seed :: jsnumber
  rng_t :: nat

text \<open>\<open>String(seed)\<close> for the seeds that are not numbers.\<close>

fun seedString :: "seedArg \<Rightarrow> jsstring" where
  "seedString (JString s) = s"
| "seedString JNull = ascii ''null''"
| "seedString JUndefined = ascii ''undefined''"
| "seedString (JNumber n) = []"

text \<open>
  The default parameter \<open>seed = "default"\<close> replaces \<open>undefined\<close> and nothing else.
  A number is used as it is; any other value is hashed
  (\<open>seedString\<close> is never applied to a number).
\<close>

definition createRng :: "seedArg \<Rightarrow> rng" where
  "createRng seed0 =
    (let seed = (case seed0 of JUndefined \<Rightarrow> JString (ascii ''default'') | _ \<Rightarrow> seed0);
         s = (case seed of
                JNumber n \<Rightarrow> n
              | _ \<Rightarrow> Finite (real (unat (hashStringToUint32 (seedString seed)))))
     in \<lparr> rng_seed = s, rng_t = mulberry32 s \<rparr>)"

text \<open>\<open>rng.rand()\<close>: one call of the closure on the state held by the object.\<close>

definition rng_rand :: "rng \<Rightarrow> real \<times> rng" where
  "rng_rand g = (let (r, t) = rand (rng_t g) in (r, g\<lparr> rng_t := t \<rparr>))"

definition rng_float :: "real \<Rightarrow> real \<Rightarrow> rng \<Rightarrow> real \<times> rng" where
  "rng_float lo hi g = (let (r, g') = rng_rand g in (lo + (hi - lo) * r, g'))"

definition rng_int :: "real \<Rightarrow> real \<Rightarrow> rng \<Rightarrow> int \<times> rng" where
  "rng_int minInclusive maxInclusive g =
    (let (r, g') = rng_rand g
     in (\<lfloor>minInclusive + r * (maxInclusive - minInclusive + 1)\<rfloor>, g'))"

text \<open>
  \<open>arr[Math.floor(rand() * arr.length)]\<close>: reading an index that the array does not
  have gives \<open>undefined\<close>, which is \<open>None\<close> here.
\<close>

definition rng_pick :: "'a list \<Rightarrow> rng \<Rightarrow> 'a option \<times> rng" where
  "rng_pick arr g =
    (let (r, g') = rng_rand g;
         i = \<lfloor>r * real (length arr)\<rfloor>
     in (if 0 \<le> i \<and> nat i < length arr then Some (arr ! nat i) else None, g'))"

text \<open>The generator after \<open>n\<close> draws.\<close>

definition afterDraws :: "nat \<Rightarrow> rng \<Rightarrow> rng" where
  "afterDraws n g = ((\<lambda>g. snd (rng_rand g)) ^^ n) g"

section \<open>world.js\<close>

text \<open>
  \<open>createWorld\<close> builds the World and, while doing so, adds meshes to the THREE.js
  scene. The meshes of patches, path segments and landmarks are functions of the
  World data and are not kept by the model. What the scene receives beyond the
  World is kept: the size of the ground plane and the tree instances, in the order
  of the calls of \<open>addTree\<close>.
\<close>

record point =
  pt_x :: real
  pt_z :: real

definition v2 :: "real \<Rightarrow> real \<Rightarrow> point" where
  "v2 x z = \<lparr> pt_x = x, pt_z = z \<rparr>"

record patch =
  patch_x :: real
  patch_z :: real
  patch_r :: real
  patch_color :: nat

record path =
  path_width :: real
  path_points :: "point list"

record landmark =
  lm_id :: string
  lm_name :: string
  lm_type :: string
  lm_x :: real
  lm_z :: real

record tree =
  tree_x :: real
  tree_z :: real
  tree_s :: real

record world =
  w_bounds :: jsnumber
  w_patches :: "patch list"
  w_paths :: "path list"
  w_landmarks :: "landmark list"

text \<open>
  The argument object of \<open>createWorld\<close> without \<open>scene\<close> and \<open>rng\<close>: a property
  that is absent or \<open>undefined\<close> is \<open>None\<close> and takes its default.
\<close>

record config =
  cfg_worldSize :: "jsnumber option"
  cfg_bounds :: "jsnumber option"

record outcome =
  out_world :: world
  out_ground :: jsnumber
  out_trees :: "tree list"
  out_rng :: rng

text \<open>The four landmarks pushed by \<open>addLandmarks\<close>, in the order of the pushes.\<close>

definition addLandmarks :: "landmark list" where
  "addLandmarks =
    [\<lparr> lm_id = ''stone_ring'', lm_name = ''Stone Ring'', lm_type = ''stone'', lm_x = -120, lm_z = -80 \<rparr>,
     \<lparr> lm_id = ''pond'', lm_name = ''Pond'', lm_type = ''water'', lm_x = 110, lm_z = 90 \<rparr>,
     \<lparr> lm_id = ''watch_rock'', lm_name = ''Watch Rock'', lm_type = ''rock'', lm_x = -140, lm_z = 120 \<rparr>,
     \<lparr> lm_id = ''dead_tree'', lm_name = ''Dead Tree'', lm_type = ''tree'', lm_x = 150, lm_z = -110 \<rparr>]"

text \<open>
  The body of the loop over the 70 patches: the three arguments of \<open>addPatch\<close> are
  evaluated from left to right, one draw each.
\<close>

definition patchBody :: "patch list \<times> rng \<Rightarrow> patch list \<times> rng" where
  "patchBody s =
    (let (patches, g) = s;
         (r1, g1) = rng_rand g;
         (r2, g2) = rng_rand g1;
         (r3, g3) = rng_rand g2
     in (patches @ [\<lparr> patch_x = (r1 - 0.5) * 350, patch_z = (r2 - 0.5) * 350,
                      patch_r = 6 + r3 * 14, patch_color = 0x2b5f34 \<rparr>], g3))"

function patchLoop :: "nat \<Rightarrow> patch list \<times> rng \<Rightarrow> patch list \<times> rng" where
  "patchLoop i s = (if i < 70 then patchLoop (i + 1) (patchBody s) else s)"
  by pat_completeness auto
termination
  by (relation "measure (\<lambda>(i, s). 70 - i)") auto

text \<open>The argument object of \<open>carvePath\<close>; \<open>width\<close> and \<open>turnChance\<close> have defaults.\<close>

record carveArgs =
  startX :: real
  startZ :: real
  steps :: int
  stepLen :: real
  width :: "real option"
  turnChance :: "real option"

text \<open>The variables of \<open>carvePath\<close> that its loop updates, with the shared generator.\<close>

record walk =
  walk_x :: real
  walk_z :: real
  walk_ang :: real
  walk_poly :: "point list"
  walk_rng :: rng

definition carveBody :: "real \<Rightarrow> real \<Rightarrow> walk \<Rightarrow> walk" where
  "carveBody len chance s =
    (let (r, g1) = rng_rand (walk_rng s);
         (ang, g2) = (if r < chance
                      then (let (r', g') = rng_rand g1 in (walk_ang s + (r' - 0.5) * 1.2, g'))
                      else (walk_ang s, g1));
         nx = walk_x s + cos ang * len;
         nz = walk_z s + sin ang * len
     in \<lparr> walk_x = nx, walk_z = nz, walk_ang = ang,
          walk_poly = walk_poly s @ [v2 nx nz], walk_rng = g2 \<rparr>)"

function carveLoop :: "nat \<Rightarrow> int \<Rightarrow> real \<Rightarrow> real \<Rightarrow> walk \<Rightarrow> walk" where
  "carveLoop i n len chance s =
    (if int i < n then carveLoop (i + 1) n len chance (carveBody len chance s) else s)"
  by pat_completeness auto
termination
  by (relation "measure (\<lambda>(i, n, len, chance, s). nat n - i)") auto

definition carvePath :: "carveArgs \<Rightarrow> rng \<Rightarrow> path list \<Rightarrow> path list \<times> rng" where
  "carvePath a g paths =
    (let w = (case width a of None \<Rightarrow> 5.0 | Some v \<Rightarrow> v);
         chance = (case turnChance a of None \<Rightarrow> 0.12 | Some v \<Rightarrow> v);
         x = startX a;
         z = startZ a;
         (r, g1) = rng_rand g;
         ang = r * pi * 2;
         poly = [v2 x z];
         s = carveLoop 0 (steps a) (stepLen a) chance
               \<lparr> walk_x = x, walk_z = z, walk_ang = ang, walk_poly = poly, walk_rng = g1 \<rparr>
     in (paths @ [\<lparr> path_width = w, path_points = walk_poly s \<rparr>], walk_rng s))"

record corridor =
  c_x :: real
  c_z :: real
  c_r :: real

definition corridors :: "corridor list" where
  "corridors =
    [\<lparr> c_x = -60, c_z = 20, c_r = 22 \<rparr>,
     \<lparr> c_x = 40, c_z = -30, c_r = 22 \<rparr>,
     \<lparr> c_x = 0, c_z = 0, c_r = 20 \<rparr>]"

text \<open>The \<open>for ... of\<close> loop of \<open>nearCorridor\<close>, which returns at the first hit.\<close>

fun corridorLoop :: "corridor list \<Rightarrow> real \<Rightarrow> real \<Rightarrow> bool" where
  "corridorLoop [] x z = False"
| "corridorLoop (c # cs) x z =
    (let dx = x - c_x c; dz = z - c_z c
     in if dx * dx + dz * dz < c_r c * c_r c then True else corridorLoop cs x z)"

definition nearCorridor :: "real \<Rightarrow> real \<Rightarrow> bool" where
  "nearCorridor x z = corridorLoop corridors x z"

text \<open>
  The second half of the body of the tree loop, for the candidate position
  \<open>(x, z)\<close>: the test \<open>nearCorridor(x, z) && rng.rand() < 0.75\<close> calls \<open>rand\<close> only
  when the left operand is true; \<open>continue\<close> leaves the list of trees as it is.
\<close>

definition placeTree :: "real \<Rightarrow> real \<Rightarrow> tree list \<times> rng \<Rightarrow> tree list \<times> rng" where
  "placeTree x z s =
    (let (trees, g) = s;
         (skip, g1) = (if nearCorridor x z
                       then (let (r, g') = rng_rand g in (r < 0.75, g'))
                       else (False, g))
     in if skip then (trees, g1)
        else (let (r, g2) = rng_rand g1
              in (trees @ [\<lparr> tree_x = x, tree_z = z, tree_s = 0.75 + r * 0.9 \<rparr>], g2)))"

definition treeBody :: "tree list \<times> rng \<Rightarrow> tree list \<times> rng" where
  "treeBody s =
    (let (trees, g) = s;
         (r1, g1) = rng_rand g;
         x = (r1 - 0.5) * 360;
         (r2, g2) = rng_rand g1;
         z = (r2 - 0.5) * 360
     in placeTree x z (trees, g2))"

function treeLoop :: "nat \<Rightarrow> nat \<Rightarrow> tree list \<times> rng \<Rightarrow> tree list \<times> rng" where
  "treeLoop i treeCount s =
    (if i < treeCount then treeLoop (i + 1) treeCount (treeBody s) else s)"
  by pat_completeness auto
termination
  by (relation "measure (\<lambda>(i, treeCount, s). treeCount - i)") auto

definition createWorld :: "rng \<Rightarrow> config \<Rightarrow> outcome" where
  "createWorld g cfg =
    (let worldSize = (case cfg_worldSize cfg of None \<Rightarrow> Finite 500 | Some v \<Rightarrow> v);
         bounds = (case cfg_bounds cfg of None \<Rightarrow> Finite 240 | Some v \<Rightarrow> v);
         (patches, g1) = patchLoop 0 ([], g);
         (paths1, g2) = carvePath \<lparr> startX = -60, startZ = 20, steps = 75, stepLen = 7,
                                    width = Some 5.0, turnChance = None \<rparr> g1 [];
         (paths2, g3) = carvePath \<lparr> startX = 40, startZ = -30, steps = 75, stepLen = 7,
                                    width = Some 5.0, turnChance = None \<rparr> g2 paths1;
         (paths3, g4) = carvePath \<lparr> startX = 0, startZ = 0, steps = 55, stepLen = 8,
                                    width = Some 5.2, turnChance = None \<rparr> g3 paths2;
         treeCount = 650;
         (trees, g5) = treeLoop 0 treeCount ([], g4);
         landmarks = addLandmarks
     in \<lparr> out_world = \<lparr> w_bounds = bounds, w_patches = patches, w_paths = paths3,
                          w_landmarks = landmarks \<rparr>,
          out_ground = worldSize, out_trees = trees, out_rng = g5 \<rparr>)"

section \<open>Notions of the specification\<close>

text \<open>
  The two definitions of this section follow the words of the specification, not
  the source; they are what the source is compared with.

  An invalid extent is a zero, negative or NaN value; a configuration is invalid
  when its \<open>worldSize\<close> or its \<open>bounds\<close> is given and is an invalid extent.
\<close>

definition spec_invalidExtent :: "jsnumber \<Rightarrow> bool" where
  "spec_invalidExtent v =
    (case v of Finite r \<Rightarrow> r \<le> 0 | NaN \<Rightarrow> True | NegInfinity \<Rightarrow> True | PosInfinity \<Rightarrow> False)"

definition spec_invalidConfig :: "config \<Rightarrow> bool" where
  "spec_invalidConfig cfg =
    ((case cfg_worldSize cfg of None \<Rightarrow> False | Some v \<Rightarrow> spec_invalidExtent v) \<or>
     (case cfg_bounds cfg of None \<Rightarrow> False | Some v \<Rightarrow> spec_invalidExtent v))"


section \<open>The random number generator\<close>

lemma uint32_ratio: "0 \<le> real (unat w) / 4294967296 \<and> real (unat w) / 4294967296 < 1"
  for w :: uint32
proof -
  have "unat w < 4294967296"
    using unsigned_less [of w, where ?'a = nat] by simp
  then have "real (unat w) < real 4294967296"
    by (simp only: of_nat_less_iff)
  then show ?thesis by (simp del: of_nat_unat)
qed

lemma rand_range: "0 \<le> fst (rand t) \<and> fst (rand t) < 1"
  unfolding rand_def Let_def fst_conv by (rule uint32_ratio)

lemma rand_state: "snd (rand t) = t + 0x6D2B79F5"
  by (simp add: rand_def Let_def)

lemma rng_rand_range: "0 \<le> fst (rng_rand g) \<and> fst (rng_rand g) < 1"
  using rand_range [of "rng_t g"] by (simp add: rng_rand_def split_beta)

lemma rng_rand_t: "rng_t (snd (rng_rand g)) = rng_t g + 0x6D2B79F5"
  using rand_state [of "rng_t g"] by (simp add: rng_rand_def split_beta)

text \<open>
  C6: for every seed and every number \<open>n\<close> of earlier draws (the first 10,000 among
  them), the next call of \<open>rand\<close> returns a value that is at least 0 and strictly
  less than 1.
\<close>

theorem rand_in_unit_interval:
  "0 \<le> fst (rng_rand (afterDraws n (createRng seed))) \<and>
   fst (rng_rand (afterDraws n (createRng seed))) < 1"
  by (rule rng_rand_range)

text \<open>
  C10: \<open>pick\<close> on an empty array returns \<open>undefined\<close> without raising, and leaves the
  generator exactly one draw further.
\<close>

theorem pick_empty:
  "rng_pick [] g = (None, snd (rng_rand g)) \<and>
   snd (rng_pick [] g) = afterDraws 1 g \<and>
   rng_t (snd (rng_pick [] g)) = rng_t g + 0x6D2B79F5"
  using rng_rand_t [of g] by (simp add: rng_pick_def afterDraws_def split_beta)

section \<open>Draws and loops\<close>

declare patchLoop.simps [simp del] carveLoop.simps [simp del] treeLoop.simps [simp del]

lemma rng_rand_snd: "snd (rng_rand g) = g\<lparr> rng_t := rng_t g + 0x6D2B79F5 \<rparr>"
  using rand_state [of "rng_t g"] by (simp add: rng_rand_def split_beta)

lemma afterDraws_eq: "afterDraws n g = g\<lparr> rng_t := rng_t g + n * 0x6D2B79F5 \<rparr>"
  unfolding afterDraws_def
  by (induction n) (simp_all add: rng_rand_snd algebra_simps)

lemma patchBody_length: "length (fst (patchBody s)) = length (fst s) + 1"
  by (simp add: patchBody_def split_beta)

lemma patchBody_rng: "snd (patchBody s) = afterDraws 3 (snd s)"
  by (simp add: patchBody_def split_beta rng_rand_snd afterDraws_eq)

lemma patchLoop_length: "i \<le> 70 \<Longrightarrow> length (fst (patchLoop i s)) = length (fst s) + (70 - i)"
proof (induction i s rule: patchLoop.induct)
  case (1 i s)
  show ?case
  proof (cases "i < 70")
    case True
    with "1.IH" show ?thesis
      by (subst patchLoop.simps) (simp add: patchBody_length)
  next
    case False
    with "1.prems" show ?thesis
      by (subst patchLoop.simps) simp
  qed
qed

lemma patchLoop_rng: "i \<le> 70 \<Longrightarrow> snd (patchLoop i s) = afterDraws (3 * (70 - i)) (snd s)"
proof (induction i s rule: patchLoop.induct)
  case (1 i s)
  show ?case
  proof (cases "i < 70")
    case True
    with "1.IH" show ?thesis
      by (subst patchLoop.simps) (simp add: patchBody_rng afterDraws_eq algebra_simps)
  next
    case False
    with "1.prems" show ?thesis
      by (subst patchLoop.simps) (simp add: afterDraws_eq)
  qed
qed


lemma afterDraws_add: "afterDraws a (afterDraws b g) = afterDraws (a + b) g"
  by (simp add: afterDraws_eq algebra_simps)

lemma carveBody_poly:
  "walk_poly (carveBody len chance s) =
   walk_poly s @ [v2 (walk_x (carveBody len chance s)) (walk_z (carveBody len chance s))]"
  by (simp add: carveBody_def split_beta Let_def)

lemma carveBody_rng:
  "walk_rng (carveBody len chance s) =
   afterDraws (if fst (rng_rand (walk_rng s)) < chance then 2 else 1) (walk_rng s)"
  by (simp add: carveBody_def split_beta Let_def rng_rand_snd afterDraws_eq)

lemma carveLoop_length:
  "length (walk_poly (carveLoop i n len chance s)) = length (walk_poly s) + (nat n - i)"
proof (induction i n len chance s rule: carveLoop.induct)
  case (1 i n len chance s)
  show ?case
  proof (cases "int i < n")
    case True
    with "1.IH" show ?thesis
      by (subst carveLoop.simps) (auto simp add: carveBody_poly)
  next
    case False
    then show ?thesis
      by (subst carveLoop.simps) simp
  qed
qed

lemma carveLoop_hd:
  "walk_poly s \<noteq> [] \<Longrightarrow> hd (walk_poly (carveLoop i n len chance s)) = hd (walk_poly s)"
proof (induction i n len chance s rule: carveLoop.induct)
  case (1 i n len chance s)
  show ?case
  proof (cases "int i < n")
    case True
    have "walk_poly (carveBody len chance s) \<noteq> []"
      by (subst carveBody_poly) simp
    with True "1.IH" have "hd (walk_poly (carveLoop i n len chance s)) =
        hd (walk_poly (carveBody len chance s))"
      by (subst carveLoop.simps) simp
    also have "\<dots> = hd (walk_poly s)"
      using "1.prems" by (subst carveBody_poly) simp
    finally show ?thesis .
  next
    case False
    then show ?thesis
      by (subst carveLoop.simps) simp
  qed
qed

lemma carveLoop_rng:
  "\<exists>k. nat n - i \<le> k \<and> k \<le> 2 * (nat n - i) \<and>
       walk_rng (carveLoop i n len chance s) = afterDraws k (walk_rng s)"
proof (induction i n len chance s rule: carveLoop.induct)
  case (1 i n len chance s)
  show ?case
  proof (cases "int i < n")
    case True
    from "1.IH" [OF True] obtain k where k: "nat n - (i + 1) \<le> k" "k \<le> 2 * (nat n - (i + 1))"
      "walk_rng (carveLoop (i + 1) n len chance (carveBody len chance s)) =
       afterDraws k (walk_rng (carveBody len chance s))"
      by blast
    define j :: nat where "j = (if fst (rng_rand (walk_rng s)) < chance then 2 else 1)"
    have j: "1 \<le> j" "j \<le> 2" by (simp_all add: j_def)
    have "walk_rng (carveLoop i n len chance s) = afterDraws (k + j) (walk_rng s)"
      using True k(3) by (subst carveLoop.simps) (simp add: carveBody_rng afterDraws_add j_def)
    moreover have "nat n - i \<le> k + j" using k(1) j True by linarith
    moreover have "k + j \<le> 2 * (nat n - i)" using k(2) j True by linarith
    ultimately show ?thesis by blast
  next
    case False
    then have "walk_rng (carveLoop i n len chance s) = afterDraws 0 (walk_rng s)"
      by (subst carveLoop.simps) (simp add: afterDraws_def)
    moreover from False have "nat n - i = 0" by simp
    ultimately show ?thesis by auto
  qed
qed


lemma carvePath_paths:
  "fst (carvePath a g paths) =
   paths @ [\<lparr> path_width = (case width a of None \<Rightarrow> 5.0 | Some v \<Rightarrow> v),
              path_points = path_points (last (fst (carvePath a g paths))) \<rparr>]"
  by (simp add: carvePath_def split_beta Let_def)

lemma carvePath_points_length:
  "length (path_points (last (fst (carvePath a g paths)))) = nat (steps a) + 1"
  by (simp add: carvePath_def split_beta Let_def carveLoop_length)

lemma carvePath_points_hd:
  "hd (path_points (last (fst (carvePath a g paths)))) = v2 (startX a) (startZ a)"
  by (simp add: carvePath_def split_beta Let_def carveLoop_hd)

lemma carvePath_rng:
  "\<exists>k. nat (steps a) + 1 \<le> k \<and> k \<le> 2 * nat (steps a) + 1 \<and>
       snd (carvePath a g paths) = afterDraws k g"
proof -
  let ?chance = "case turnChance a of None \<Rightarrow> 0.12 | Some v \<Rightarrow> v"
  let ?s = "\<lparr> walk_x = startX a, walk_z = startZ a, walk_ang = fst (rng_rand g) * pi * 2,
              walk_poly = [v2 (startX a) (startZ a)], walk_rng = snd (rng_rand g) \<rparr>"
  obtain k where k: "nat (steps a) - 0 \<le> k" "k \<le> 2 * (nat (steps a) - 0)"
    "walk_rng (carveLoop 0 (steps a) (stepLen a) ?chance ?s) = afterDraws k (walk_rng ?s)"
    using carveLoop_rng [of "steps a" 0 "stepLen a" ?chance ?s] by blast
  have "snd (rng_rand g) = afterDraws 1 g"
    by (simp add: afterDraws_def)
  then have "snd (carvePath a g paths) = afterDraws (k + 1) g"
    using k(3) by (simp add: carvePath_def split_beta Let_def afterDraws_add)
  moreover have "nat (steps a) + 1 \<le> k + 1" "k + 1 \<le> 2 * nat (steps a) + 1"
    using k(1,2) by simp_all
  ultimately show ?thesis by blast
qed

lemma placeTree_rng:
  "snd (placeTree x z (trees, g)) =
   afterDraws ((if nearCorridor x z then 1 else 0) +
               (if fst (placeTree x z (trees, g)) = trees then 0 else 1)) g"
  by (simp add: placeTree_def split_beta Let_def rng_rand_snd afterDraws_eq)

lemma treeBody_rng:
  "\<exists>k. 3 \<le> k \<and> k \<le> 4 \<and> snd (treeBody s) = afterDraws k (snd s)"
proof -
  obtain trees g where s: "s = (trees, g)" by (cases s)
  let ?g2 = "afterDraws 2 g"
  let ?x = "(fst (rng_rand g) - 0.5) * 360"
  let ?z = "(fst (rng_rand (snd (rng_rand g))) - 0.5) * 360"
  have g2: "snd (rng_rand (snd (rng_rand g))) = ?g2"
    by (simp add: afterDraws_eq rng_rand_snd)
  have body: "treeBody s = placeTree ?x ?z (trees, ?g2)"
    by (simp add: treeBody_def s split_beta Let_def g2)
  define j :: nat where "j = (if nearCorridor ?x ?z then 1 else 0) +
               (if fst (placeTree ?x ?z (trees, ?g2)) = trees then 0 else 1)"
  have "snd (treeBody s) = afterDraws (j + 2) g"
    unfolding body j_def by (subst placeTree_rng) (simp only: afterDraws_add)
  moreover have "1 \<le> j"
    by (simp add: j_def placeTree_def split_beta Let_def)
  moreover have "j \<le> 2" by (simp add: j_def)
  ultimately show ?thesis using s by (intro exI [of _ "j + 2"]) simp
qed


lemma treeLoop_rng:
  "\<exists>k. 3 * (n - i) \<le> k \<and> k \<le> 4 * (n - i) \<and> snd (treeLoop i n s) = afterDraws k (snd s)"
proof (induction i n s rule: treeLoop.induct)
  case (1 i n s)
  show ?case
  proof (cases "i < n")
    case True
    from "1.IH" [OF True] obtain k where k: "3 * (n - (i + 1)) \<le> k" "k \<le> 4 * (n - (i + 1))"
      "snd (treeLoop (i + 1) n (treeBody s)) = afterDraws k (snd (treeBody s))"
      by blast
    obtain j where j: "3 \<le> j" "j \<le> 4" "snd (treeBody s) = afterDraws j (snd s)"
      using treeBody_rng [of s] by blast
    have "snd (treeLoop i n s) = afterDraws (k + j) (snd s)"
      using True k(3) j(3) by (subst treeLoop.simps) (simp add: afterDraws_add)
    moreover have "3 * (n - i) \<le> k + j" using k(1) j(1) True by linarith
    moreover have "k + j \<le> 4 * (n - i)" using k(2) j(2) True by linarith
    ultimately show ?thesis by blast
  next
    case False
    then have "snd (treeLoop i n s) = afterDraws 0 (snd s)"
      by (subst treeLoop.simps) (simp add: afterDraws_def)
    moreover from False have "n - i = 0" by simp
    ultimately show ?thesis by auto
  qed
qed

text \<open>The stages of \<open>createWorld\<close>, named for the proofs.\<close>

lemma createWorld_bounds:
  "w_bounds (out_world (createWorld g cfg)) =
   (case cfg_bounds cfg of None \<Rightarrow> Finite 240 | Some v \<Rightarrow> v)"
  by (simp add: createWorld_def split_beta Let_def)

lemma createWorld_landmarks: "w_landmarks (out_world (createWorld g cfg)) = addLandmarks"
  by (simp add: createWorld_def split_beta Let_def)

lemma createWorld_patches:
  "w_patches (out_world (createWorld g cfg)) = fst (patchLoop 0 ([], g))"
  by (simp add: createWorld_def split_beta Let_def)

lemma createWorld_patches_length: "length (w_patches (out_world (createWorld g cfg))) = 70"
  by (simp add: createWorld_patches patchLoop_length)

lemma createWorld_paths_lengths:
  "map (\<lambda>p. length (path_points p)) (w_paths (out_world (createWorld g cfg))) = [76, 76, 56]"
proof -
  have *: "map (\<lambda>p. length (path_points p)) (fst (carvePath a g' ps)) =
        map (\<lambda>p. length (path_points p)) ps @ [nat (steps a) + 1]" for a g' ps
    by (subst carvePath_paths) (simp add: carvePath_points_length)
  show ?thesis
    by (simp add: createWorld_def split_beta Let_def *)
qed

lemma createWorld_rng:
  "\<exists>k. 2368 \<le> k \<and> k \<le> 3223 \<and> out_rng (createWorld g cfg) = afterDraws k g"
proof -
  let ?a1 = "\<lparr> startX = -60, startZ = 20, steps = 75, stepLen = 7,
               width = Some 5.0, turnChance = None \<rparr>"
  let ?a2 = "\<lparr> startX = 40, startZ = -30, steps = 75, stepLen = 7,
               width = Some 5.0, turnChance = None \<rparr>"
  let ?a3 = "\<lparr> startX = 0, startZ = 0, steps = 55, stepLen = 8,
               width = Some 5.2, turnChance = None \<rparr>"
  define g1 where "g1 = snd (patchLoop 0 ([], g))"
  define p1 where "p1 = carvePath ?a1 g1 []"
  define p2 where "p2 = carvePath ?a2 (snd p1) (fst p1)"
  define p3 where "p3 = carvePath ?a3 (snd p2) (fst p2)"
  define tr where "tr = treeLoop 0 650 ([], snd p3)"
  have out: "out_rng (createWorld g cfg) = snd tr"
    by (simp add: createWorld_def split_beta Let_def tr_def p3_def p2_def p1_def g1_def)
  have e0: "g1 = afterDraws 210 g"
    unfolding g1_def by (subst patchLoop_rng) simp_all
  obtain k1 where k1: "76 \<le> k1" "k1 \<le> 151" "snd p1 = afterDraws k1 g1"
    using carvePath_rng [of ?a1 g1 "[]"] unfolding p1_def by auto
  obtain k2 where k2: "76 \<le> k2" "k2 \<le> 151" "snd p2 = afterDraws k2 (snd p1)"
    using carvePath_rng [of ?a2 "snd p1" "fst p1"] unfolding p2_def by auto
  obtain k3 where k3: "56 \<le> k3" "k3 \<le> 111" "snd p3 = afterDraws k3 (snd p2)"
    using carvePath_rng [of ?a3 "snd p2" "fst p2"] unfolding p3_def by auto
  obtain k4 where k4: "1950 \<le> k4" "k4 \<le> 2600" "snd tr = afterDraws k4 (snd p3)"
    using treeLoop_rng [of 650 0 "([], snd p3)"] unfolding tr_def by auto
  have "out_rng (createWorld g cfg) = afterDraws (k4 + (k3 + (k2 + (k1 + 210)))) g"
    by (simp only: out k4(3) k3(3) k2(3) k1(3) e0 afterDraws_add)
  moreover have "2368 \<le> k4 + (k3 + (k2 + (k1 + 210)))" using k1(1) k2(1) k3(1) k4(1) by linarith
  moreover have "k4 + (k3 + (k2 + (k1 + 210))) \<le> 3223" using k1(2) k2(2) k3(2) k4(2) by linarith
  ultimately show ?thesis by blast
qed


lemma hash_default: "hashStringToUint32 (ascii ''default'') = 2470140894"
  by (simp add: hashStringToUint32_def ascii_def imul_def)

lemma createRng_default: "createRng JUndefined = \<lparr> rng_seed = Finite 2470140894, rng_t = 2470140894 \<rparr>"
  by (simp add: createRng_def mulberry32_def toUint32_def hash_default)

lemma toUint32_unat: "toUint32 (Finite (real (unat w))) = w"
proof -
  have "\<lfloor>real (unat w)\<rfloor> = int (unat w)" by (rule floor_of_nat)
  moreover have "\<not> real (unat w) < 0" by (simp del: of_nat_unat)
  ultimately show ?thesis
    by (simp only: toUint32_def jsnumber.case if_False) simp
qed

lemma createRng_string:
  "createRng (JString s) = \<lparr> rng_seed = Finite (real (unat (hashStringToUint32 s))),
                              rng_t = unat (hashStringToUint32 s) \<rparr>"
  by (simp add: createRng_def mulberry32_def toUint32_unat del: of_nat_unat)

lemma createRng_t_bound: "rng_t (createRng seed) < 2 ^ 32"
proof -
  have "unat w < 2 ^ 32" for w :: uint32
    using unsigned_less [of w, where ?'a = nat] by simp
  then show ?thesis
    by (simp add: createRng_def mulberry32_def Let_def)
qed

lemma rand_mod: "fst (rand t) = fst (rand (t mod 2 ^ 32))"
proof -
  have "(word_of_nat (t + 0x6D2B79F5) :: uint32) = word_of_nat (t mod 2 ^ 32 + 0x6D2B79F5)"
    by (simp add: word_of_nat_eq_iff take_bit_eq_mod mod_simps)
  then show ?thesis
    by (simp only: rand_def Let_def fst_conv)
qed


lemma first_draw_default: "fst (rng_rand (createRng JUndefined)) = 628949173 / 4294967296"
  by (simp add: createRng_default rng_rand_def rand_def Let_def imul_def)

lemma first_draw_empty: "fst (rng_rand (createRng (JString []))) = 2625274932 / 4294967296"
  by (simp add: createRng_string hashStringToUint32_def rng_rand_def rand_def Let_def imul_def)




lemma afterDraws_t: "rng_t (afterDraws n g) = rng_t g + n * 0x6D2B79F5"
  by (simp add: afterDraws_eq)


lemma createWorld_paths_length: "length (w_paths (out_world (createWorld g cfg))) = 3"
  using arg_cong [OF createWorld_paths_lengths [of g cfg], of length] by simp

lemma createWorld_config_irrelevant:
  "w_patches (out_world (createWorld g cfg)) = w_patches (out_world (createWorld g cfg')) \<and>
   w_paths (out_world (createWorld g cfg)) = w_paths (out_world (createWorld g cfg')) \<and>
   w_landmarks (out_world (createWorld g cfg)) = w_landmarks (out_world (createWorld g cfg')) \<and>
   out_trees (createWorld g cfg) = out_trees (createWorld g cfg') \<and>
   out_rng (createWorld g cfg) = out_rng (createWorld g cfg')"
  by (simp add: createWorld_def split_beta Let_def)

lemma carveLoop_zero: "carveLoop 0 0 len chance s = s"
  by (subst carveLoop.simps) simp

section \<open>The path carver\<close>

text \<open>
  C4: for every step count \<open>steps \<ge> 0\<close>, \<open>carvePath\<close> pushes one path whose
  polyline has exactly \<open>steps + 1\<close> points and starts at the given start position;
  with \<open>steps = 0\<close> the polyline is the start position alone.
\<close>

theorem carvePath_polyline:
  "0 \<le> steps a \<Longrightarrow>
   fst (carvePath a g paths) = paths @ [last (fst (carvePath a g paths))] \<and>
   int (length (path_points (last (fst (carvePath a g paths))))) = steps a + 1 \<and>
   hd (path_points (last (fst (carvePath a g paths)))) = v2 (startX a) (startZ a) \<and>
   (steps a = 0 \<longrightarrow>
      path_points (last (fst (carvePath a g paths))) = [v2 (startX a) (startZ a)])"
proof (intro conjI impI)
  show "fst (carvePath a g paths) = paths @ [last (fst (carvePath a g paths))]"
    by (simp add: carvePath_def split_beta Let_def)
  assume "0 \<le> steps a"
  then show "int (length (path_points (last (fst (carvePath a g paths))))) = steps a + 1"
    by (simp add: carvePath_points_length)
  show "hd (path_points (last (fst (carvePath a g paths)))) = v2 (startX a) (startZ a)"
    by (rule carvePath_points_hd)
next
  assume "steps a = 0"
  then show "path_points (last (fst (carvePath a g paths))) = [v2 (startX a) (startZ a)]"
    by (simp add: carvePath_def split_beta Let_def carveLoop_zero)
qed

theorem carvePath_polyline_witness:
  "(0::int) \<le> steps \<lparr> startX = 3, startZ = 4, steps = 0, stepLen = 7, width = None,
                            turnChance = None \<rparr> \<and>
   int (length (path_points (last (fst (carvePath
      \<lparr> startX = 3, startZ = 4, steps = 0, stepLen = 7, width = None, turnChance = None \<rparr>
      (createRng JUndefined) []))))) = 1 \<and>
   path_points (last (fst (carvePath
      \<lparr> startX = 3, startZ = 4, steps = 0, stepLen = 7, width = None, turnChance = None \<rparr>
      (createRng JUndefined) []))) = [v2 3 4]"
  using carvePath_polyline [of "\<lparr> startX = 3, startZ = 4, steps = 0, stepLen = 7,
      width = None, turnChance = None \<rparr>" "createRng JUndefined" "[]"]
  by simp

section \<open>The state of the generator\<close>

text \<open>
  The state does not stay below \<open>2^32\<close>: from the seed \<open>"default"\<close>, whose hash is
  2470140894, the first draw leaves \<open>t = 4301706707\<close>.
\<close>

theorem rng_state_counterexample:
  "\<not> rng_t (snd (rng_rand (createRng (JString (ascii ''default''))))) < 2 ^ 32"
  by (simp add: createRng_string hash_default rng_rand_t)

text \<open>
  A double holds every integer up to \<open>2^53\<close> exactly, so the addition
  \<open>t += 0x6D2B79F5\<close> of the code is the exact addition of the model as long as the
  sum is at most \<open>2^53\<close>. From any seed this covers the first 4917756 draws.
\<close>

lemma createRng_exact_range: "rng_t (createRng seed) + 4917756 * 0x6D2B79F5 \<le> 2 ^ 53"
  using createRng_t_bound [of seed] by simp

text \<open>
  C8, as the code has it: the state of the generator is a single non-negative
  integer. It starts below \<open>2^32\<close>. As long as it stays at most \<open>2^53\<close>, every
  draw adds \<open>0x6D2B79F5\<close> to it without reducing it modulo \<open>2^32\<close>, so no draw
  returns without changing it, and after \<open>n\<close> draws it has grown by
  \<open>n * 0x6D2B79F5\<close>; the value drawn depends only on the state modulo \<open>2^32\<close>.
\<close>

theorem rng_state_counter:
  assumes "rng_t g + (n + 1) * 0x6D2B79F5 \<le> 2 ^ 53"
  shows "rng_t (createRng seed) < 2 ^ 32 \<and>
         rng_t (createRng seed) + 4917756 * 0x6D2B79F5 \<le> 2 ^ 53 \<and>
         rng_t (afterDraws n g) = rng_t g + n * 0x6D2B79F5 \<and>
         snd (rng_rand (afterDraws n g)) = afterDraws (n + 1) g \<and>
         rng_t (afterDraws (n + 1) g) = rng_t (afterDraws n g) + 0x6D2B79F5 \<and>
         rng_t (afterDraws (n + 1) g) \<noteq> rng_t (afterDraws n g) \<and>
         rng_t (afterDraws (n + 1) g) \<le> 2 ^ 53 \<and>
         fst (rng_rand (afterDraws n g)) =
           fst (rng_rand ((afterDraws n g)\<lparr> rng_t := rng_t (afterDraws n g) mod 2 ^ 32 \<rparr>))"
proof (intro conjI)
  show "rng_t (createRng seed) < 2 ^ 32"
    by (rule createRng_t_bound)
  show "rng_t (createRng seed) + 4917756 * 0x6D2B79F5 \<le> 2 ^ 53"
    by (rule createRng_exact_range)
  show "rng_t (afterDraws n g) = rng_t g + n * 0x6D2B79F5"
    by (rule afterDraws_t)
  show "snd (rng_rand (afterDraws n g)) = afterDraws (n + 1) g"
    by (simp add: afterDraws_def)
  show "rng_t (afterDraws (n + 1) g) = rng_t (afterDraws n g) + 0x6D2B79F5"
    by (simp add: afterDraws_t)
  show "rng_t (afterDraws (n + 1) g) \<noteq> rng_t (afterDraws n g)"
    by (simp add: afterDraws_t)
  show "rng_t (afterDraws (n + 1) g) \<le> 2 ^ 53"
    using assms by (simp only: afterDraws_t)
  show "fst (rng_rand (afterDraws n g)) =
        fst (rng_rand ((afterDraws n g)\<lparr> rng_t := rng_t (afterDraws n g) mod 2 ^ 32 \<rparr>))"
    using rand_mod [of "rng_t (afterDraws n g)"] by (simp add: rng_rand_def split_beta)
qed

theorem rng_state_counter_witness:
  "rng_t (createRng (JString (ascii ''default''))) + (10000 + 1) * 0x6D2B79F5 \<le> 2 ^ 53 \<and>
   rng_t (afterDraws 10000 (createRng (JString (ascii ''default'')))) = 18318128270894 \<and>
   rng_t (afterDraws (10000 + 1) (createRng (JString (ascii ''default'')))) = 18319959836707"
proof -
  have t: "rng_t (createRng (JString (ascii ''default''))) = 2470140894"
    by (simp add: createRng_string hash_default)
  have h: "rng_t (createRng (JString (ascii ''default''))) + (10000 + 1) * 0x6D2B79F5 \<le> 2 ^ 53"
    by (simp add: t)
  from rng_state_counter [OF h] h show ?thesis
    by (simp add: t)
qed

section \<open>Seeds\<close>

text \<open>
  The empty string is not replaced by the default seed: it is hashed to the FNV
  offset basis, and both the \<open>seed\<close> field and the first draw differ from those of
  an omitted seed.
\<close>

theorem empty_seed_counterexample:
  "rng_seed (createRng (JString [])) \<noteq> rng_seed (createRng JUndefined) \<and>
   fst (rng_rand (createRng (JString []))) \<noteq> fst (rng_rand (createRng JUndefined))"
proof
  show "rng_seed (createRng (JString [])) \<noteq> rng_seed (createRng JUndefined)"
    by (simp add: createRng_default createRng_string hashStringToUint32_def)
  show "fst (rng_rand (createRng (JString []))) \<noteq> fst (rng_rand (createRng JUndefined))"
    by (simp only: first_draw_default first_draw_empty)
qed

lemma hash_null: "hashStringToUint32 (ascii ''null'') = 1996966820"
  by (simp add: hashStringToUint32_def ascii_def imul_def)

lemma createRng_null: "createRng JNull = \<lparr> rng_seed = Finite 1996966820, rng_t = 1996966820 \<rparr>"
  by (simp add: createRng_def mulberry32_def toUint32_def hash_null)

lemma first_draw_null: "fst (rng_rand (createRng JNull)) = 2359876756 / 4294967296"
  by (simp add: createRng_null rng_rand_def rand_def Let_def imul_def)

text \<open>
  C7, as the code has it: \<open>createRng\<close> is defined for every seed (it never throws).
  Only an omitted (\<open>undefined\<close>) seed falls back to the fixed seed \<open>"default"\<close>, whose
  hash is 2470140894. Every string, the empty one included, is hashed as it is: the
  empty string gives 2166136261, and \<open>null\<close> is hashed as the string \<open>"null"\<close>,
  1996966820. The streams of the empty string and of \<open>null\<close> differ from the
  fallback's at the first draw.
\<close>

theorem seed_fallback:
  "createRng JUndefined = createRng (JString (ascii ''default'')) \<and>
   createRng JUndefined = \<lparr> rng_seed = Finite 2470140894, rng_t = 2470140894 \<rparr> \<and>
   createRng (JString []) = \<lparr> rng_seed = Finite 2166136261, rng_t = 2166136261 \<rparr> \<and>
   createRng (JString s) = \<lparr> rng_seed = Finite (real (unat (hashStringToUint32 s))),
                               rng_t = unat (hashStringToUint32 s) \<rparr> \<and>
   createRng JNull = createRng (JString (ascii ''null'')) \<and>
   createRng JNull = \<lparr> rng_seed = Finite 1996966820, rng_t = 1996966820 \<rparr> \<and>
   fst (rng_rand (createRng JUndefined)) = 628949173 / 4294967296 \<and>
   fst (rng_rand (createRng (JString []))) = 2625274932 / 4294967296 \<and>
   fst (rng_rand (createRng JNull)) = 2359876756 / 4294967296 \<and>
   fst (rng_rand (createRng (JString []))) \<noteq> fst (rng_rand (createRng JUndefined)) \<and>
   fst (rng_rand (createRng JNull)) \<noteq> fst (rng_rand (createRng JUndefined))"
proof (intro conjI)
  show "createRng JUndefined = createRng (JString (ascii ''default''))"
    by (simp add: createRng_def)
  show "createRng JUndefined = \<lparr> rng_seed = Finite 2470140894, rng_t = 2470140894 \<rparr>"
    by (rule createRng_default)
  show "createRng (JString []) = \<lparr> rng_seed = Finite 2166136261, rng_t = 2166136261 \<rparr>"
    by (simp add: createRng_string hashStringToUint32_def)
  show "createRng (JString s) = \<lparr> rng_seed = Finite (real (unat (hashStringToUint32 s))),
                               rng_t = unat (hashStringToUint32 s) \<rparr>"
    by (rule createRng_string)
  show "createRng JNull = createRng (JString (ascii ''null''))"
    by (simp add: createRng_def)
  show "createRng JNull = \<lparr> rng_seed = Finite 1996966820, rng_t = 1996966820 \<rparr>"
    by (rule createRng_null)
  show "fst (rng_rand (createRng JUndefined)) = 628949173 / 4294967296"
    by (rule first_draw_default)
  show "fst (rng_rand (createRng (JString []))) = 2625274932 / 4294967296"
    by (rule first_draw_empty)
  show "fst (rng_rand (createRng JNull)) = 2359876756 / 4294967296"
    by (rule first_draw_null)
  show "fst (rng_rand (createRng (JString []))) \<noteq> fst (rng_rand (createRng JUndefined))"
    by (simp only: first_draw_default first_draw_empty)
  show "fst (rng_rand (createRng JNull)) \<noteq> fst (rng_rand (createRng JUndefined))"
    by (simp only: first_draw_default first_draw_null)
qed

section \<open>Landmarks\<close>

text \<open>
  C9: in every generated World the landmark ids are pairwise distinct, and the
  landmark list is the fixed list of \<open>addLandmarks\<close>, the same for every generator
  and configuration. Producing it draws nothing: the generator that \<open>createWorld\<close>
  leaves is the one the tree loop left.
\<close>

theorem landmarks_fixed:
  "w_landmarks (out_world (createWorld g cfg)) = addLandmarks \<and>
   distinct (map lm_id (w_landmarks (out_world (createWorld g cfg)))) \<and>
   w_landmarks (out_world (createWorld g cfg)) = w_landmarks (out_world (createWorld g' cfg')) \<and>
   (let (patches, g1) = patchLoop 0 ([], g);
        (paths1, g2) = carvePath \<lparr> startX = -60, startZ = 20, steps = 75, stepLen = 7,
                                   width = Some 5.0, turnChance = None \<rparr> g1 [];
        (paths2, g3) = carvePath \<lparr> startX = 40, startZ = -30, steps = 75, stepLen = 7,
                                   width = Some 5.0, turnChance = None \<rparr> g2 paths1;
        (paths3, g4) = carvePath \<lparr> startX = 0, startZ = 0, steps = 55, stepLen = 8,
                                   width = Some 5.2, turnChance = None \<rparr> g3 paths2
    in out_rng (createWorld g cfg) = snd (treeLoop 0 650 ([], g4)))"
proof (intro conjI)
  show "distinct (map lm_id (w_landmarks (out_world (createWorld g cfg))))"
    by (simp add: createWorld_landmarks addLandmarks_def)
qed (simp_all add: createWorld_def split_beta Let_def)

section \<open>The default World\<close>

text \<open>
  With the seed \<open>"default"\<close> and no configuration, the third of the three paths has
  56 points, not 76: it is carved with \<open>steps: 55\<close>.
\<close>

theorem default_world_paths_counterexample:
  "length (w_paths (out_world (createWorld (createRng (JString (ascii ''default'')))
      \<lparr> cfg_worldSize = None, cfg_bounds = None \<rparr>))) = 3 \<and>
   length (path_points (w_paths (out_world (createWorld (createRng (JString (ascii ''default'')))
      \<lparr> cfg_worldSize = None, cfg_bounds = None \<rparr>)) ! 2)) = 56 \<and>
   length (path_points (w_paths (out_world (createWorld (createRng (JString (ascii ''default'')))
      \<lparr> cfg_worldSize = None, cfg_bounds = None \<rparr>)) ! 2)) \<noteq> 76"
proof -
  let ?ps = "w_paths (out_world (createWorld (createRng (JString (ascii ''default'')))
      \<lparr> cfg_worldSize = None, cfg_bounds = None \<rparr>))"
  have m: "map (\<lambda>p. length (path_points p)) ?ps = [76, 76, 56]"
    by (rule createWorld_paths_lengths)
  have l: "length ?ps = 3"
    by (rule createWorld_paths_length)
  have "map (\<lambda>p. length (path_points p)) ?ps ! 2 = length (path_points (?ps ! 2))"
    using l by (intro nth_map) simp
  with m have "length (path_points (?ps ! 2)) = 56" by simp
  with l show ?thesis by simp
qed

text \<open>
  C2, as the code has it: with the seed \<open>"default"\<close> and all default parameters the
  World has exactly three paths, of 76, 76 and 56 points (steps 75, 75 and 55), and
  its landmarks include the one with id \<open>"pond"\<close> at \<open>x = 110\<close>, \<open>z = 90\<close>.
\<close>

theorem default_world_shape:
  "map (\<lambda>p. length (path_points p))
     (w_paths (out_world (createWorld (createRng (JString (ascii ''default'')))
        \<lparr> cfg_worldSize = None, cfg_bounds = None \<rparr>))) = [76, 76, 56] \<and>
   \<lparr> lm_id = ''pond'', lm_name = ''Pond'', lm_type = ''water'', lm_x = 110, lm_z = 90 \<rparr>
     \<in> set (w_landmarks (out_world (createWorld (createRng (JString (ascii ''default'')))
        \<lparr> cfg_worldSize = None, cfg_bounds = None \<rparr>)))"
  by (simp add: createWorld_paths_lengths createWorld_landmarks addLandmarks_def)


section \<open>Determinism\<close>

text \<open>
  The field \<open>seed\<close> of the generator is never read during generation: replacing it
  changes nothing but the same field of the generator that is left. So the World
  and the trees are functions of the counter \<open>t\<close> and the configuration alone.
\<close>

lemma rng_rand_reseed:
  "rng_rand (g\<lparr> rng_seed := v \<rparr>) = (fst (rng_rand g), (snd (rng_rand g))\<lparr> rng_seed := v \<rparr>)"
  by (simp add: rng_rand_def split_beta)

lemma patchBody_reseed:
  "patchBody (apsnd (rng_seed_update (\<lambda>_. v)) s) = apsnd (rng_seed_update (\<lambda>_. v)) (patchBody s)"
  by (cases s) (simp add: patchBody_def split_beta Let_def rng_rand_reseed)

lemma patchLoop_reseed:
  "patchLoop i (apsnd (rng_seed_update (\<lambda>_. v)) s) = apsnd (rng_seed_update (\<lambda>_. v)) (patchLoop i s)"
proof (induction i s rule: patchLoop.induct)
  case (1 i s)
  show ?case
  proof (cases "i < 70")
    case True
    with "1.IH" show ?thesis
      by (subst (1 2) patchLoop.simps) (simp add: patchBody_reseed)
  next
    case False
    then show ?thesis
      by (subst (1 2) patchLoop.simps) simp
  qed
qed

lemma carveBody_reseed:
  "carveBody len chance (walk_rng_update (rng_seed_update (\<lambda>_. v)) s) =
   walk_rng_update (rng_seed_update (\<lambda>_. v)) (carveBody len chance s)"
  by (simp add: carveBody_def split_beta Let_def rng_rand_reseed)

lemma carveLoop_reseed:
  "carveLoop i n len chance (walk_rng_update (rng_seed_update (\<lambda>_. v)) s) =
   walk_rng_update (rng_seed_update (\<lambda>_. v)) (carveLoop i n len chance s)"
proof (induction i n len chance s rule: carveLoop.induct)
  case (1 i n len chance s)
  show ?case
  proof (cases "int i < n")
    case True
    with "1.IH" show ?thesis
      by (subst (1 2) carveLoop.simps) (simp add: carveBody_reseed)
  next
    case False
    then show ?thesis
      by (subst (1 2) carveLoop.simps) simp
  qed
qed

lemma carvePath_reseed:
  "carvePath a (g\<lparr> rng_seed := v \<rparr>) paths = apsnd (rng_seed_update (\<lambda>_. v)) (carvePath a g paths)"
proof -
  have "carveLoop 0 n len chance \<lparr> walk_x = x, walk_z = z, walk_ang = ang, walk_poly = poly,
          walk_rng = g'\<lparr> rng_seed := v \<rparr> \<rparr> =
        walk_rng_update (rng_seed_update (\<lambda>_. v)) (carveLoop 0 n len chance
          \<lparr> walk_x = x, walk_z = z, walk_ang = ang, walk_poly = poly, walk_rng = g' \<rparr>)"
    for n len chance x z ang poly g'
    using carveLoop_reseed [of 0 n len chance v
        "\<lparr> walk_x = x, walk_z = z, walk_ang = ang, walk_poly = poly, walk_rng = g' \<rparr>"]
    by simp
  then show ?thesis
    by (simp add: carvePath_def split_beta Let_def rng_rand_reseed)
qed

lemma placeTree_reseed:
  "placeTree x z (apsnd (rng_seed_update (\<lambda>_. v)) s) =
   apsnd (rng_seed_update (\<lambda>_. v)) (placeTree x z s)"
  by (cases s) (simp add: placeTree_def split_beta Let_def rng_rand_reseed)

lemma treeBody_reseed:
  "treeBody (apsnd (rng_seed_update (\<lambda>_. v)) s) = apsnd (rng_seed_update (\<lambda>_. v)) (treeBody s)"
proof -
  obtain trees g where s: "s = (trees, g)" by (cases s)
  have "placeTree x z (trees, g'\<lparr> rng_seed := v \<rparr>) =
        apsnd (rng_seed_update (\<lambda>_. v)) (placeTree x z (trees, g'))" for x z g'
    using placeTree_reseed [of x z v "(trees, g')"] by simp
  then show ?thesis
    by (simp add: s treeBody_def split_beta Let_def rng_rand_reseed)
qed

lemma treeLoop_reseed:
  "treeLoop i n (apsnd (rng_seed_update (\<lambda>_. v)) s) = apsnd (rng_seed_update (\<lambda>_. v)) (treeLoop i n s)"
proof (induction i n s rule: treeLoop.induct)
  case (1 i n s)
  show ?case
  proof (cases "i < n")
    case True
    with "1.IH" show ?thesis
      by (subst (1 2) treeLoop.simps) (simp add: treeBody_reseed)
  next
    case False
    then show ?thesis
      by (subst (1 2) treeLoop.simps) simp
  qed
qed

lemma createWorld_reseed:
  "createWorld (g\<lparr> rng_seed := v \<rparr>) cfg =
   out_rng_update (rng_seed_update (\<lambda>_. v)) (createWorld g cfg)"
proof -
  have p: "patchLoop 0 ([], g'\<lparr> rng_seed := v \<rparr>) =
        apsnd (rng_seed_update (\<lambda>_. v)) (patchLoop 0 ([], g'))" for g'
    using patchLoop_reseed [of 0 v "([], g')"] by simp
  have t: "treeLoop 0 n ([], g'\<lparr> rng_seed := v \<rparr>) =
        apsnd (rng_seed_update (\<lambda>_. v)) (treeLoop 0 n ([], g'))" for g' n
    using treeLoop_reseed [of 0 n v "([], g')"] by simp
  show ?thesis
    by (simp add: createWorld_def split_beta Let_def p t carvePath_reseed)
qed

lemma createWorld_counter_only:
  assumes "rng_t g1 = rng_t g2"
  shows "out_world (createWorld g1 cfg) = out_world (createWorld g2 cfg)"
    and "out_trees (createWorld g1 cfg) = out_trees (createWorld g2 cfg)"
proof -
  from assms have "g2 = g1\<lparr> rng_seed := rng_seed g2 \<rparr>" by simp
  then have "createWorld g2 cfg =
      out_rng_update (rng_seed_update (\<lambda>_. rng_seed g2)) (createWorld g1 cfg)"
    using createWorld_reseed [where g = g1 and v = "rng_seed g2" and cfg = cfg] by simp
  then show "out_world (createWorld g1 cfg) = out_world (createWorld g2 cfg)"
    and "out_trees (createWorld g1 cfg) = out_trees (createWorld g2 cfg)"
    by simp_all
qed

text \<open>
  C1: two runs of world generation with the same seed and the same configuration
  give the same patches, the same paths (the same polylines in the same order), the
  same tree instances and the same World. Each run builds its generator with
  \<open>createRng\<close>; the generator is the only state that generation reads or writes.
\<close>

theorem createWorld_deterministic:
  assumes "seed1 = seed2" and "cfg1 = cfg2"
  shows "w_patches (out_world (createWorld (createRng seed1) cfg1)) =
           w_patches (out_world (createWorld (createRng seed2) cfg2)) \<and>
         w_paths (out_world (createWorld (createRng seed1) cfg1)) =
           w_paths (out_world (createWorld (createRng seed2) cfg2)) \<and>
         out_trees (createWorld (createRng seed1) cfg1) =
           out_trees (createWorld (createRng seed2) cfg2) \<and>
         out_world (createWorld (createRng seed1) cfg1) =
           out_world (createWorld (createRng seed2) cfg2)"
proof -
  from assms(1) have "rng_t (createRng seed1) = rng_t (createRng seed2)"
    by simp
  from createWorld_counter_only [OF this, of cfg1] assms(2) show ?thesis
    by simp
qed

theorem createWorld_deterministic_witness:
  "JString (ascii ''default'') = JString (ascii ''default'') \<and>
   \<lparr> cfg_worldSize = None, cfg_bounds = None \<rparr> = \<lparr> cfg_worldSize = None, cfg_bounds = None \<rparr> \<and>
   out_trees (createWorld (createRng (JString (ascii ''default'')))
       \<lparr> cfg_worldSize = None, cfg_bounds = None \<rparr>) =
   out_trees (createWorld (createRng (JString (ascii ''default'')))
       \<lparr> cfg_worldSize = None, cfg_bounds = None \<rparr>) \<and>
   out_world (createWorld (createRng (JString (ascii ''default'')))
       \<lparr> cfg_worldSize = None, cfg_bounds = None \<rparr>) =
   out_world (createWorld (createRng (JString (ascii ''default'')))
       \<lparr> cfg_worldSize = None, cfg_bounds = None \<rparr>)"
  using createWorld_deterministic [of "JString (ascii ''default'')" "JString (ascii ''default'')"
      "\<lparr> cfg_worldSize = None, cfg_bounds = None \<rparr>" "\<lparr> cfg_worldSize = None, cfg_bounds = None \<rparr>"]
  by simp

section \<open>Configuration\<close>

text \<open>
  A configuration with a negative \<open>worldSize\<close> and \<open>bounds = 0\<close> is not rejected:
  \<open>createWorld\<close> returns a World with \<open>bounds = 0\<close>, 70 patches and 3 paths, and the
  generator has been advanced.
\<close>

theorem invalid_config_counterexample:
  "spec_invalidConfig \<lparr> cfg_worldSize = Some (Finite (-500)), cfg_bounds = Some (Finite 0) \<rparr> \<and>
   w_bounds (out_world (createWorld (createRng (JString (ascii ''default'')))
      \<lparr> cfg_worldSize = Some (Finite (-500)), cfg_bounds = Some (Finite 0) \<rparr>)) = Finite 0 \<and>
   length (w_patches (out_world (createWorld (createRng (JString (ascii ''default'')))
      \<lparr> cfg_worldSize = Some (Finite (-500)), cfg_bounds = Some (Finite 0) \<rparr>))) = 70 \<and>
   length (w_paths (out_world (createWorld (createRng (JString (ascii ''default'')))
      \<lparr> cfg_worldSize = Some (Finite (-500)), cfg_bounds = Some (Finite 0) \<rparr>))) = 3 \<and>
   rng_t (createRng (JString (ascii ''default''))) <
   rng_t (out_rng (createWorld (createRng (JString (ascii ''default'')))
      \<lparr> cfg_worldSize = Some (Finite (-500)), cfg_bounds = Some (Finite 0) \<rparr>))"
proof -
  let ?g = "createRng (JString (ascii ''default''))"
  let ?cfg = "\<lparr> cfg_worldSize = Some (Finite (-500)), cfg_bounds = Some (Finite 0) \<rparr>"
  obtain k where k: "2368 \<le> k" "out_rng (createWorld ?g ?cfg) = afterDraws k ?g"
    using createWorld_rng [of ?g ?cfg] by blast
  have "rng_t ?g < rng_t (out_rng (createWorld ?g ?cfg))"
    using k(1) by (simp only: k(2) afterDraws_t)
  moreover have "spec_invalidConfig ?cfg"
    by (simp add: spec_invalidConfig_def spec_invalidExtent_def)
  ultimately show ?thesis
    by (simp add: createWorld_bounds createWorld_patches_length createWorld_paths_length)
qed

text \<open>
  C3, as the code has it: \<open>createWorld\<close> validates nothing and has no failing
  branch. For every configuration, valid or not, it returns a complete World: its
  \<open>bounds\<close> is the configured value (240 when absent), the ground plane gets the
  configured \<open>worldSize\<close> (500 when absent), there are 70 patches, 3 paths and 4
  landmarks, and between 2368 and 3223 draws are consumed. Patches, paths,
  landmarks, trees and the final generator do not depend on the configuration.
\<close>

theorem createWorld_no_validation:
  "w_bounds (out_world (createWorld g cfg)) =
     (case cfg_bounds cfg of None \<Rightarrow> Finite 240 | Some v \<Rightarrow> v) \<and>
   out_ground (createWorld g cfg) =
     (case cfg_worldSize cfg of None \<Rightarrow> Finite 500 | Some v \<Rightarrow> v) \<and>
   length (w_patches (out_world (createWorld g cfg))) = 70 \<and>
   length (w_paths (out_world (createWorld g cfg))) = 3 \<and>
   length (w_landmarks (out_world (createWorld g cfg))) = 4 \<and>
   (\<exists>k. 2368 \<le> k \<and> k \<le> 3223 \<and> out_rng (createWorld g cfg) = afterDraws k g) \<and>
   w_patches (out_world (createWorld g cfg)) = w_patches (out_world (createWorld g cfg')) \<and>
   w_paths (out_world (createWorld g cfg)) = w_paths (out_world (createWorld g cfg')) \<and>
   w_landmarks (out_world (createWorld g cfg)) = w_landmarks (out_world (createWorld g cfg')) \<and>
   out_trees (createWorld g cfg) = out_trees (createWorld g cfg') \<and>
   out_rng (createWorld g cfg) = out_rng (createWorld g cfg')"
proof -
  have "out_ground (createWorld g cfg) =
     (case cfg_worldSize cfg of None \<Rightarrow> Finite 500 | Some v \<Rightarrow> v)"
    by (simp add: createWorld_def split_beta Let_def)
  moreover have "length (w_landmarks (out_world (createWorld g cfg))) = 4"
    by (simp add: createWorld_landmarks addLandmarks_def)
  ultimately show ?thesis
    using createWorld_rng [of g cfg] createWorld_config_irrelevant [of g cfg cfg']
    by (simp only: createWorld_bounds createWorld_patches_length createWorld_paths_length)
qed

section \<open>Scatter candidates\<close>






end
